theory Spec2Isabelle
  imports Complex_Main
begin

section \<open>Values and errors\<close>

text \<open>
  The bot works on the values that \<^verbatim>\<open>response.json()\<close> hands it. A JSON object is a Python
  dict, kept here as an association list that is read with \<open>map_of\<close>. A JSON number is a
  Python int, which is unbounded, or a Python float: \<open>JFloat r\<close> is the finite double of
  value \<open>r\<close> (\<^verbatim>\<open>nan\<close> and \<^verbatim>\<open>inf\<close> are not represented as inputs). Python strings are lists
  of characters, each character read as a code point below 256.
\<close>

datatype json =
    JNull
  | JBool bool
  | JInt int
  | JFloat real
  | JStr string
  | JArr "json list"
  | JObj "(string \<times> json) list"

text \<open>
  The exceptions that the modelled functions can raise; \<open>ApiError\<close> stands for whatever
  a client library raises on a failed request. \<open>Unmodelled\<close> marks the one place where
  Python goes on and this model does not follow it (see \<open>py_sorted_reverse\<close>).
\<close>

datatype py_error = AttributeError | TypeError | ApiError | Unmodelled

text \<open>\<^verbatim>\<open>d.get(k, default)\<close>: only a dict has the method.\<close>

definition dict_get :: "json \<Rightarrow> string \<Rightarrow> json \<Rightarrow> py_error + json" where
  "dict_get d k dflt =
     (case d of
        JObj kvs \<Rightarrow> Inr (case map_of kvs k of None \<Rightarrow> dflt | Some v \<Rightarrow> v)
      | _ \<Rightarrow> Inl AttributeError)"

text \<open>\<^verbatim>\<open>d.get(k1, {}).get(k2, default)\<close>.\<close>

definition dict_get2 :: "json \<Rightarrow> string \<Rightarrow> string \<Rightarrow> json \<Rightarrow> py_error + json" where
  "dict_get2 d k1 k2 dflt =
     (case dict_get d k1 (JObj []) of
        Inl e \<Rightarrow> Inl e
      | Inr inner \<Rightarrow> dict_get inner k2 dflt)"

text \<open>
  The operand of an order comparison with a number, or of \<^verbatim>\<open>* 2\<close>: an int, a float or a
  bool (\<^verbatim>\<open>True\<close> is the int 1) is a number, anything else raises \<^verbatim>\<open>TypeError\<close>.
\<close>

datatype number = PyInt int | PyFloat real

definition num_of :: "json \<Rightarrow> py_error + number" where
  "num_of v =
     (case v of
        JInt i \<Rightarrow> Inr (PyInt i)
      | JFloat r \<Rightarrow> Inr (PyFloat r)
      | JBool b \<Rightarrow> Inr (PyInt (if b then 1 else 0))
      | _ \<Rightarrow> Inl TypeError)"

text \<open>
  Python compares an int with a float, and two numbers of one kind, by their exact values.
\<close>

definition value_of :: "number \<Rightarrow> real" where
  "value_of n = (case n of PyInt i \<Rightarrow> real_of_int i | PyFloat r \<Rightarrow> r)"

text \<open>
  \<^verbatim>\<open>n * 2\<close>, the one arithmetic operation of the program (line 139). The product of an int
  is an int and exact. The product of a float is a float: doubling a finite double is exact
  as long as the result is finite, and from the magnitude \<open>2 ^ 1023\<close> on the result is
  \<^verbatim>\<open>inf\<close> or \<^verbatim>\<open>-inf\<close>.
\<close>

datatype product = Finite real | PlusInfinity | MinusInfinity

definition float_overflow_bound :: real where
  "float_overflow_bound = 2 ^ 1023"

definition times_two :: "number \<Rightarrow> product" where
  "times_two n =
     (case n of
        PyInt i \<Rightarrow> Finite (real_of_int (i * 2))
      | PyFloat r \<Rightarrow>
          if r \<ge> float_overflow_bound then PlusInfinity
          else if r \<le> - float_overflow_bound then MinusInfinity
          else Finite (r * 2))"

text \<open>\<^verbatim>\<open>x > y\<close> for a number \<open>x\<close> and a product \<open>y\<close>: nothing finite is above \<^verbatim>\<open>inf\<close>.\<close>

definition greater_than :: "number \<Rightarrow> product \<Rightarrow> bool" where
  "greater_than x y =
     (case y of
        Finite r \<Rightarrow> value_of x > r
      | PlusInfinity \<Rightarrow> False
      | MinusInfinity \<Rightarrow> True)"

text \<open>Python truthiness, as \<^verbatim>\<open>if not pairs\<close> tests it.\<close>

definition truthy :: "json \<Rightarrow> bool" where
  "truthy v =
     (case v of
        JNull \<Rightarrow> False
      | JBool b \<Rightarrow> b
      | JInt i \<Rightarrow> i \<noteq> 0
      | JFloat r \<Rightarrow> r \<noteq> 0
      | JStr s \<Rightarrow> s \<noteq> []
      | JArr xs \<Rightarrow> xs \<noteq> []
      | JObj kvs \<Rightarrow> kvs \<noteq> [])"


section \<open>The risk classifier: \<^verbatim>\<open>analyze_rug_pull_risk\<close>\<close>

text \<open>
  The function returns one of six message texts. The model keeps what decides the text:
  the tier (its header is \<open>risk_label\<close>) and the four level readouts that are formatted
  into every message.
\<close>

datatype tier = LowRisk | ModerateRisk | HighRisk | CriticalRisk | ExtremeRisk | LowToModerateRisk

definition risk_label :: "tier \<Rightarrow> string" where
  "risk_label t =
     (case t of
        LowRisk \<Rightarrow> ''Low Risk''
      | ModerateRisk \<Rightarrow> ''Moderate Risk''
      | HighRisk \<Rightarrow> ''High Risk''
      | CriticalRisk \<Rightarrow> ''Critical Risk''
      | ExtremeRisk \<Rightarrow> ''Extreme Risk''
      | LowToModerateRisk \<Rightarrow> ''Low to Moderate Risk'')"

record verdict =
  tier :: tier
  liquidity_level :: string
  market_cap_level :: string
  price_change_level :: string
  fdv_vs_market_cap :: string

text \<open>
  Lines 67 to 70: the four reads, in the order liquidity, price change, market cap, FDV.
  The price change is \<^verbatim>\<open>priceChange.percent\<close>, and \<^verbatim>\<open>priceChange.h24\<close> (or 0) where that key
  is absent. Python evaluates the default \<^verbatim>\<open>...get("h24", 0)\<close> before it calls
  \<^verbatim>\<open>...get("percent", default)\<close>; both raise in the same case, a \<^verbatim>\<open>priceChange\<close> that is
  not a dict.
\<close>

definition pair_fields :: "json \<Rightarrow> py_error + (json \<times> json \<times> json \<times> json)" where
  "pair_fields preferred_pair =
     (case dict_get2 preferred_pair ''liquidity'' ''usd'' (JInt 0) of
        Inl e \<Rightarrow> Inl e
      | Inr liquidity \<Rightarrow>
     (case dict_get2 preferred_pair ''priceChange'' ''h24'' (JInt 0) of
        Inl e \<Rightarrow> Inl e
      | Inr h24 \<Rightarrow>
     (case dict_get2 preferred_pair ''priceChange'' ''percent'' h24 of
        Inl e \<Rightarrow> Inl e
      | Inr price_change_percentage \<Rightarrow>
     (case dict_get preferred_pair ''marketCap'' (JInt 0) of
        Inl e \<Rightarrow> Inl e
      | Inr market_cap \<Rightarrow>
     (case dict_get preferred_pair ''fdv'' (JInt 0) of
        Inl e \<Rightarrow> Inl e
      | Inr fdv \<Rightarrow> Inr (liquidity, price_change_percentage, market_cap, fdv))))))"

text \<open>Lines 72 to 98: the four key factors.\<close>

definition liquidity_level_of :: "real \<Rightarrow> string" where
  "liquidity_level_of liquidity =
     (if liquidity > 25000 then ''High''
      else if liquidity \<ge> 10000 then ''Medium''
      else ''Low'')"

definition market_cap_level_of :: "real \<Rightarrow> string" where
  "market_cap_level_of market_cap =
     (if market_cap > 250000 then ''High''
      else if market_cap \<ge> 100000 then ''Medium''
      else ''Low'')"

definition price_change_level_of :: "real \<Rightarrow> string" where
  "price_change_level_of price_change_percentage =
     (if price_change_percentage > 500 then ''Volatile''
      else if price_change_percentage \<le> 0 then ''Negative''
      else ''Stable'')"

definition fdv_vs_market_cap_of :: "real \<Rightarrow> real \<Rightarrow> string" where
  "fdv_vs_market_cap_of fdv market_cap =
     (if fdv < market_cap then ''FDV Lower Than Market Cap''
      else if fdv > market_cap then ''FDV Higher Than Market Cap''
      else ''Balanced'')"

text \<open>Lines 100 to 153: the chain of \<^verbatim>\<open>if ...: return\<close>, in the order of the source.\<close>

definition risk_calculation :: "number \<Rightarrow> number \<Rightarrow> number \<Rightarrow> number \<Rightarrow> tier" where
  "risk_calculation liquidity price_change_percentage market_cap fdv =
     (if value_of liquidity > 25000 \<and> value_of market_cap > 250000
          \<and> value_of price_change_percentage \<le> 50
        then LowRisk
      else if value_of liquidity \<ge> 10000 \<and> value_of liquidity \<le> 20000
              \<and> (value_of price_change_percentage > 50 \<or> value_of market_cap < 100000)
        then ModerateRisk
      else if value_of liquidity < 10000 \<or> value_of price_change_percentage \<le> 0
        then HighRisk
      else if value_of liquidity < 5000 \<or> value_of fdv < value_of market_cap
        then CriticalRisk
      else if value_of price_change_percentage > 1000
              \<or> greater_than fdv (times_two market_cap)
        then ExtremeRisk
      else LowToModerateRisk)"

text \<open>
  The whole function. Every value is first compared with an integer literal (lines 74, 81,
  88) or, for \<^verbatim>\<open>fdv\<close>, with the market cap that line 81 has already found to be a number
  (line 95), so a value that is not a number raises \<^verbatim>\<open>TypeError\<close> before any tier is chosen.
\<close>

definition analyze_rug_pull_risk :: "json \<Rightarrow> py_error + verdict" where
  "analyze_rug_pull_risk preferred_pair =
     (case pair_fields preferred_pair of
        Inl e \<Rightarrow> Inl e
      | Inr (liquidity_v, price_change_v, market_cap_v, fdv_v) \<Rightarrow>
     (case num_of liquidity_v of
        Inl e \<Rightarrow> Inl e
      | Inr liquidity \<Rightarrow>
     (case num_of market_cap_v of
        Inl e \<Rightarrow> Inl e
      | Inr market_cap \<Rightarrow>
     (case num_of price_change_v of
        Inl e \<Rightarrow> Inl e
      | Inr price_change_percentage \<Rightarrow>
     (case num_of fdv_v of
        Inl e \<Rightarrow> Inl e
      | Inr fdv \<Rightarrow>
          Inr \<lparr> tier = risk_calculation liquidity price_change_percentage market_cap fdv,
                liquidity_level = liquidity_level_of (value_of liquidity),
                market_cap_level = market_cap_level_of (value_of market_cap),
                price_change_level = price_change_level_of (value_of price_change_percentage),
                fdv_vs_market_cap =
                  fdv_vs_market_cap_of (value_of fdv) (value_of market_cap) \<rparr>)))))"


text \<open>
  The spec's reading of a trading pair: each numeric attribute is a number or absent, and an
  absent one counts as 0. These definitions follow the spec's data model, not the code; the
  theorems compare the code with them.
\<close>

definition sub_object :: "(string \<times> json) list \<Rightarrow> string \<Rightarrow> (string \<times> json) list option" where
  "sub_object kvs k =
     (case map_of kvs k of
        None \<Rightarrow> Some []
      | Some (JObj inner) \<Rightarrow> Some inner
      | Some _ \<Rightarrow> None)"

definition absent_or_number :: "json option \<Rightarrow> bool" where
  "absent_or_number v =
     (case v of
        None \<Rightarrow> True
      | Some (JInt i) \<Rightarrow> True
      | Some (JFloat r) \<Rightarrow> True
      | Some _ \<Rightarrow> False)"

definition number_or_0 :: "json option \<Rightarrow> real" where
  "number_or_0 v =
     (case v of
        Some (JInt i) \<Rightarrow> real_of_int i
      | Some (JFloat r) \<Rightarrow> r
      | _ \<Rightarrow> 0)"

definition liquidity_well_formed :: "json \<Rightarrow> bool" where
  "liquidity_well_formed p =
     (case p of
        JObj kvs \<Rightarrow>
          (case sub_object kvs ''liquidity'' of
             None \<Rightarrow> False
           | Some liq \<Rightarrow> absent_or_number (map_of liq ''usd''))
      | _ \<Rightarrow> False)"

definition well_formed_pair :: "json \<Rightarrow> bool" where
  "well_formed_pair p =
     (case p of
        JObj kvs \<Rightarrow>
          liquidity_well_formed p
          \<and> (case sub_object kvs ''priceChange'' of
               None \<Rightarrow> False
             | Some pc \<Rightarrow> absent_or_number (map_of pc ''percent'')
                          \<and> absent_or_number (map_of pc ''h24''))
          \<and> absent_or_number (map_of kvs ''marketCap'')
          \<and> absent_or_number (map_of kvs ''fdv'')
      | _ \<Rightarrow> False)"

definition fields_of :: "json \<Rightarrow> (string \<times> json) list" where
  "fields_of p = (case p of JObj kvs \<Rightarrow> kvs | _ \<Rightarrow> [])"

definition sub_fields_of :: "json \<Rightarrow> string \<Rightarrow> (string \<times> json) list" where
  "sub_fields_of p k = (case sub_object (fields_of p) k of Some inner \<Rightarrow> inner | None \<Rightarrow> [])"

definition liquidityUsd :: "json \<Rightarrow> real" where
  "liquidityUsd p = number_or_0 (map_of (sub_fields_of p ''liquidity'') ''usd'')"

definition marketCapUsd :: "json \<Rightarrow> real" where
  "marketCapUsd p = number_or_0 (map_of (fields_of p) ''marketCap'')"

definition fullyDilutedValuationUsd :: "json \<Rightarrow> real" where
  "fullyDilutedValuationUsd p = number_or_0 (map_of (fields_of p) ''fdv'')"

definition priceChangePercent24h :: "json \<Rightarrow> real" where
  "priceChangePercent24h p =
     (case map_of (sub_fields_of p ''priceChange'') ''percent'' of
        None \<Rightarrow> number_or_0 (map_of (sub_fields_of p ''priceChange'') ''h24'')
      | Some v \<Rightarrow> number_or_0 (Some v))"

text \<open>
  The same attributes as Python numbers, with their kind: the int 0 when absent.
\<close>

definition number_of :: "json option \<Rightarrow> number" where
  "number_of v =
     (case v of
        Some (JInt i) \<Rightarrow> PyInt i
      | Some (JFloat r) \<Rightarrow> PyFloat r
      | _ \<Rightarrow> PyInt 0)"

definition liquidity_number :: "json \<Rightarrow> number" where
  "liquidity_number p = number_of (map_of (sub_fields_of p ''liquidity'') ''usd'')"

definition market_cap_number :: "json \<Rightarrow> number" where
  "market_cap_number p = number_of (map_of (fields_of p) ''marketCap'')"

definition fdv_number :: "json \<Rightarrow> number" where
  "fdv_number p = number_of (map_of (fields_of p) ''fdv'')"

definition price_change_number :: "json \<Rightarrow> number" where
  "price_change_number p =
     (case map_of (sub_fields_of p ''priceChange'') ''percent'' of
        None \<Rightarrow> number_of (map_of (sub_fields_of p ''priceChange'') ''h24'')
      | Some v \<Rightarrow> number_of (Some v))"

text \<open>
  Whether the market cap of a pair is a float so large that doubling it overflows: a float
  of magnitude \<open>2 ^ 1023\<close> or more (about \<open>9 * 10 ^ 307\<close>).
\<close>

definition market_cap_overflows :: "json \<Rightarrow> bool" where
  "market_cap_overflows p =
     (case map_of (fields_of p) ''marketCap'' of
        Some (JFloat r) \<Rightarrow> r \<ge> float_overflow_bound \<or> r \<le> - float_overflow_bound
      | _ \<Rightarrow> False)"



section \<open>Address patterns: \<^verbatim>\<open>detect_blockchain\<close> and the validation gate\<close>

text \<open>
  The three character classes of the patterns, by the code points of their ranges.
\<close>

definition in_range :: "char \<Rightarrow> char \<Rightarrow> char \<Rightarrow> bool" where
  "in_range lo hi c = ((of_char lo :: nat) \<le> of_char c \<and> (of_char c :: nat) \<le> of_char hi)"

definition hex_class :: "char \<Rightarrow> bool" where
  "hex_class c =
     (in_range CHR ''a'' CHR ''f'' c \<or> in_range CHR ''A'' CHR ''F'' c \<or> in_range CHR ''0'' CHR ''9'' c)"

definition base58_class :: "char \<Rightarrow> bool" where
  "base58_class c =
     (in_range CHR ''1'' CHR ''9'' c \<or> in_range CHR ''A'' CHR ''H'' c \<or> in_range CHR ''J'' CHR ''N'' c
      \<or> in_range CHR ''P'' CHR ''Z'' c \<or> in_range CHR ''a'' CHR ''k'' c \<or> in_range CHR ''m'' CHR ''z'' c)"

definition alnum_class :: "char \<Rightarrow> bool" where
  "alnum_class c =
     (in_range CHR ''a'' CHR ''z'' c \<or> in_range CHR ''A'' CHR ''Z'' c \<or> in_range CHR ''0'' CHR ''9'' c)"

text \<open>
  Python's \<^verbatim>\<open>$\<close> (without \<^verbatim>\<open>re.MULTILINE\<close>) matches at the end of the string and also just
  before a newline that ends the string.
\<close>

definition at_dollar :: "string \<Rightarrow> bool" where
  "at_dollar rest = (rest = [] \<or> rest = [CHR 0x0A])"

text \<open>
  \<^verbatim>\<open>[class]{lo,hi}$\<close> matched from the start of \<open>s\<close>: some count between \<open>lo\<close> and \<open>hi\<close>
  of leading characters of the class, and then \<^verbatim>\<open>$\<close>.
\<close>

definition repeat_to_end :: "(char \<Rightarrow> bool) \<Rightarrow> nat \<Rightarrow> nat \<Rightarrow> string \<Rightarrow> bool" where
  "repeat_to_end cls lo hi s =
     list_ex (\<lambda>n. n \<le> length s \<and> list_all cls (take n s) \<and> at_dollar (drop n s)) [lo..<Suc hi]"

definition match_ethereum :: "string \<Rightarrow> bool" where
  "match_ethereum s = (take 2 s = ''0x'' \<and> repeat_to_end hex_class 40 40 (drop 2 s))"

definition match_solana :: "string \<Rightarrow> bool" where
  "match_solana s = repeat_to_end base58_class 32 44 s"

definition match_binance :: "string \<Rightarrow> bool" where
  "match_binance s = repeat_to_end alnum_class 42 42 s"

definition detect_blockchain :: "string \<Rightarrow> string" where
  "detect_blockchain token_address =
     (if match_ethereum token_address then ''Ethereum''
      else if match_solana token_address then ''Solana''
      else if match_binance token_address then ''Binance''
      else if match_ethereum token_address then ''Polygon''
      else ''Unknown'')"

text \<open>
  The gate of \<^verbatim>\<open>handle_token_address\<close>: one \<^verbatim>\<open>re.match\<close> of the alternation of the first two
  patterns.
\<close>

definition valid_address_format :: "string \<Rightarrow> bool" where
  "valid_address_format token_address = (match_ethereum token_address \<or> match_solana token_address)"

text \<open>
  \<^verbatim>\<open>str.strip()\<close>: the whitespace code points below 256 are 9 to 13, 28 to 32, 133 and 160.
\<close>

definition py_isspace :: "char \<Rightarrow> bool" where
  "py_isspace c =
     (let n = (of_char c :: nat)
      in (9 \<le> n \<and> n \<le> 13) \<or> (28 \<le> n \<and> n \<le> 32) \<or> n = 133 \<or> n = 160)"

definition strip :: "string \<Rightarrow> string" where
  "strip s = rev (dropWhile py_isspace (rev (dropWhile py_isspace s)))"

text \<open>
  The shapes in the spec's words: \<^verbatim>\<open>0x\<close> and 40 hex characters; 32 to 44 characters that are
  letters or digits other than \<^verbatim>\<open>0\<close>, \<^verbatim>\<open>O\<close>, \<^verbatim>\<open>I\<close> and \<^verbatim>\<open>l\<close>.
\<close>

definition hex_char :: "char \<Rightarrow> bool" where
  "hex_char c = (c \<in> set ''0123456789abcdefABCDEF'')"

definition base58_char :: "char \<Rightarrow> bool" where
  "base58_char c = (alnum_class c \<and> c \<notin> set ''0OIl'')"

definition ethereum_shape :: "string \<Rightarrow> bool" where
  "ethereum_shape s = (length s = 42 \<and> take 2 s = ''0x'' \<and> list_all hex_char (drop 2 s))"

definition solana_shape :: "string \<Rightarrow> bool" where
  "solana_shape s = (32 \<le> length s \<and> length s \<le> 44 \<and> list_all base58_char s)"


section \<open>The pair selector: \<^verbatim>\<open>get_preferred_dex\<close>\<close>

text \<open>The key of the sort, \<^verbatim>\<open>lambda x: x.get("liquidity", {}).get("usd", 0)\<close>.\<close>

definition liquidity_key :: "json \<Rightarrow> py_error + json" where
  "liquidity_key x = dict_get2 x ''liquidity'' ''usd'' (JInt 0)"

text \<open>Apply a function that may raise to each element in turn; the first exception ends it.\<close>

fun collect :: "('a \<Rightarrow> py_error + 'b) \<Rightarrow> 'a list \<Rightarrow> py_error + 'b list" where
  "collect f [] = Inr []"
| "collect f (x # xs) =
     (case f x of
        Inl e \<Rightarrow> Inl e
      | Inr y \<Rightarrow> (case collect f xs of Inl e \<Rightarrow> Inl e | Inr ys \<Rightarrow> Inr (y # ys)))"

definition is_str :: "json \<Rightarrow> bool" where
  "is_str v = (case v of JStr s \<Rightarrow> True | _ \<Rightarrow> False)"

definition is_arr :: "json \<Rightarrow> bool" where
  "is_arr v = (case v of JArr xs \<Rightarrow> True | _ \<Rightarrow> False)"

text \<open>
  \<^verbatim>\<open>sorted(xs, key=key, reverse=True)\<close>, as CPython does it: the keys are computed first, one
  per element and in order; the list is reversed, sorted by a stable ascending sort on the
  keys, and reversed again. The elements are of any type \<open>'a\<close>, so that the same function
  sorts values and references to values. A list of fewer than two elements is compared with
  nothing. Numbers (ints, floats and bools) are ordered by their values. Of the other keys Python orders strings
  among themselves and lists among themselves, which this model does not follow
  (\<open>Unmodelled\<close>); every other combination raises \<^verbatim>\<open>TypeError\<close>.
\<close>

definition py_sorted_reverse :: "('a \<Rightarrow> py_error + json) \<Rightarrow> 'a list \<Rightarrow> py_error + 'a list" where
  "py_sorted_reverse key xs =
     (case collect key xs of
        Inl e \<Rightarrow> Inl e
      | Inr keys \<Rightarrow>
          if length xs \<le> 1 then Inr xs
          else (case collect num_of keys of
                  Inr nums \<Rightarrow>
                    Inr (map fst (rev (sort_key (\<lambda>p. value_of (snd p)) (rev (zip xs nums)))))
                | Inl e \<Rightarrow>
                    if list_all is_str keys \<or> list_all is_arr keys then Inl Unmodelled
                    else Inl TypeError))"

text \<open>
  The function on values. \<^verbatim>\<open>pairs\<close> is what \<^verbatim>\<open>fetch_dexscreener_data\<close> returned, a list by
  the annotation but any JSON value in fact (the API answers \<^verbatim>\<open>"pairs": null\<close> for a token it
  does not know). Iterating a string or a dict yields strings, which have no \<^verbatim>\<open>get\<close>; a number
  or \<^verbatim>\<open>True\<close> is not iterable.
\<close>

definition get_preferred_dex :: "json \<Rightarrow> py_error + json" where
  "get_preferred_dex pairs =
     (if \<not> truthy pairs then Inr (JObj [])
      else (case pairs of
              JArr xs \<Rightarrow>
                (case py_sorted_reverse liquidity_key xs of
                   Inl e \<Rightarrow> Inl e
                 | Inr sorted_pairs \<Rightarrow>
                     Inr (case sorted_pairs of [] \<Rightarrow> JObj [] | first # _ \<Rightarrow> first))
            | JStr s \<Rightarrow> Inl AttributeError
            | JObj kvs \<Rightarrow> Inl AttributeError
            | _ \<Rightarrow> Inl TypeError))"

text \<open>
  The same function on a store, where mutation can be seen. A list object holds references
  to the pair objects; \<open>next_ref\<close> is the first address not yet allocated. \<^verbatim>\<open>sorted\<close> allocates
  the list it returns and \<^verbatim>\<open>{}\<close> allocates an empty dict; nothing else is written.
\<close>

type_synonym ref = nat

record store =
  list_objs :: "ref \<Rightarrow> ref list"
  pair_objs :: "ref \<Rightarrow> json"
  next_ref :: ref

definition new_list :: "store \<Rightarrow> ref list \<Rightarrow> store" where
  "new_list st refs = st\<lparr> list_objs := (list_objs st)(next_ref st := refs), next_ref := Suc (next_ref st) \<rparr>"

definition new_dict :: "store \<Rightarrow> json \<Rightarrow> store" where
  "new_dict st v = st\<lparr> pair_objs := (pair_objs st)(next_ref st := v), next_ref := Suc (next_ref st) \<rparr>"

definition get_preferred_dex_store :: "store \<Rightarrow> ref \<Rightarrow> store \<times> (py_error + ref)" where
  "get_preferred_dex_store st pairs =
     (if list_objs st pairs = [] then (new_dict st (JObj []), Inr (next_ref st))
      else (case py_sorted_reverse (\<lambda>r. liquidity_key (pair_objs st r)) (list_objs st pairs) of
              Inl e \<Rightarrow> (st, Inl e)
            | Inr sorted_pairs \<Rightarrow>
                (let st1 = new_list st sorted_pairs
                 in (case sorted_pairs of
                       [] \<Rightarrow> (new_dict st1 (JObj []), Inr (next_ref st1))
                     | first # _ \<Rightarrow> (st1, Inr first)))))"


section \<open>Social mentions: \<^verbatim>\<open>fetch_social_media_mentions\<close>\<close>

text \<open>
  What the two clients answer. The Twitter call raises or returns a response whose \<^verbatim>\<open>data\<close>
  is \<^verbatim>\<open>None\<close> or a list of tweets. The Reddit search is a lazy listing: the loop draws one
  post after the other, and drawing the next one either gives a post, or ends the listing,
  or raises.
\<close>

datatype twitter_response = TwitterRaises | TwitterData "string list option"

datatype reddit_listing = Exhausted | Post string reddit_listing | Failure

record mentions_count =
  twitter :: nat
  reddit :: nat

text \<open>
  The body of each \<^verbatim>\<open>try\<close>, with the dict it has written so far and the exception that left
  it, if any.
\<close>

definition twitter_block :: "twitter_response \<Rightarrow> mentions_count \<Rightarrow> mentions_count \<times> py_error option" where
  "twitter_block tw mc =
     (case tw of
        TwitterRaises \<Rightarrow> (mc, Some ApiError)
      | TwitterData d \<Rightarrow>
          (mc\<lparr> twitter := (case d of
                              None \<Rightarrow> 0
                            | Some tweets \<Rightarrow> if tweets \<noteq> [] then length tweets else 0) \<rparr>,
           None))"

fun reddit_block :: "reddit_listing \<Rightarrow> mentions_count \<Rightarrow> mentions_count \<times> py_error option" where
  "reddit_block Exhausted mc = (mc, None)"
| "reddit_block (Post post rest) mc = reddit_block rest (mc\<lparr> reddit := reddit mc + 1 \<rparr>)"
| "reddit_block Failure mc = (mc, Some ApiError)"

text \<open>
  Each \<^verbatim>\<open>except Exception\<close> logs the exception and goes on. The function returns the two
  counts formatted into a string; the model returns the counts.
\<close>

definition fetch_social_media_mentions :: "twitter_response \<Rightarrow> reddit_listing \<Rightarrow> py_error + mentions_count" where
  "fetch_social_media_mentions tw rd =
     (let mentions_count = \<lparr> twitter = 0, reddit = 0 \<rparr>;
          mentions_count = fst (twitter_block tw mentions_count);
          mentions_count = fst (reddit_block rd mentions_count)
      in Inr mentions_count)"

text \<open>A source fails when its call, or a draw from its listing, raises.\<close>

definition twitter_fails :: "twitter_response \<Rightarrow> bool" where
  "twitter_fails tw = (case tw of TwitterRaises \<Rightarrow> True | TwitterData d \<Rightarrow> False)"

fun reddit_fails :: "reddit_listing \<Rightarrow> bool" where
  "reddit_fails Exhausted = False"
| "reddit_fails (Post post rest) = reddit_fails rest"
| "reddit_fails Failure = True"

fun posts_delivered :: "reddit_listing \<Rightarrow> nat" where
  "posts_delivered Exhausted = 0"
| "posts_delivered (Post post rest) = Suc (posts_delivered rest)"
| "posts_delivered Failure = 0"

definition tweets_returned :: "twitter_response \<Rightarrow> nat" where
  "tweets_returned tw = (case tw of TwitterData (Some tweets) \<Rightarrow> length tweets | _ \<Rightarrow> 0)"


section \<open>The message handler: \<^verbatim>\<open>handle_token_address\<close>\<close>

text \<open>
  The second definition of the name (line 404) is the one Python keeps. The outside world is
  a parameter: what the three services answer for an address. The handler's effects are the
  list of what it sent and which pipeline step it called, in order, and the exception that
  ended it, if any. A report's text is kept as its parts; buttons are left out.
\<close>

record user_data =
  selected_option :: "string option"
  token_address :: "string option"

record world =
  dexscreener :: "string \<Rightarrow> json option"
  twitter_search :: "string \<Rightarrow> twitter_response"
  reddit_search :: "string \<Rightarrow> reddit_listing"

datatype step = MarketDataFetch string | PairSelection | Classification | MentionLookup string

datatype reply =
    Plain string
  | AnalysisReport string "(string \<times> json) list" verdict mentions_count
  | RugPullReport string verdict "(string \<times> json) list" mentions_count

datatype event = Replied reply | Invoked step

text \<open>
  \<^verbatim>\<open>fetch_dexscreener_data\<close>: \<open>None\<close> from the world is a failed request or a body that is not
  JSON; \<^verbatim>\<open>data.get\<close> on a body that is not an object raises inside the same \<^verbatim>\<open>try\<close>.
\<close>

definition fetch_dexscreener_data :: "world \<Rightarrow> string \<Rightarrow> json" where
  "fetch_dexscreener_data w address =
     (case dexscreener w address of
        None \<Rightarrow> JArr []
      | Some data \<Rightarrow>
          (case dict_get data ''pairs'' (JArr []) of
             Inl e \<Rightarrow> JArr []
           | Inr pairs \<Rightarrow> pairs))"

definition is_int_or_float :: "json \<Rightarrow> bool" where
  "is_int_or_float v =
     (case v of JInt i \<Rightarrow> True | JFloat r \<Rightarrow> True | JBool b \<Rightarrow> True | _ \<Rightarrow> False)"

text \<open>The reads of the \<^verbatim>\<open>"dexscreener"\<close> part of \<^verbatim>\<open>token_details\<close>, in order.\<close>

definition token_details :: "json \<Rightarrow> py_error + (string \<times> json) list" where
  "token_details preferred_pair =
     (case dict_get preferred_pair ''dexId'' (JStr ''N/A'') of Inl e \<Rightarrow> Inl e | Inr dex \<Rightarrow>
     (case dict_get preferred_pair ''priceUsd'' (JStr ''Not Available'') of Inl e \<Rightarrow> Inl e | Inr price \<Rightarrow>
     (case dict_get2 preferred_pair ''liquidity'' ''usd'' (JStr ''Not Available'') of Inl e \<Rightarrow> Inl e | Inr liq \<Rightarrow>
     (case dict_get preferred_pair ''marketCap'' (JStr ''Not Available'') of Inl e \<Rightarrow> Inl e | Inr mc \<Rightarrow>
     (case dict_get preferred_pair ''fdv'' (JStr ''Not Available'') of Inl e \<Rightarrow> Inl e | Inr fdv \<Rightarrow>
     (case dict_get2 preferred_pair ''priceChange'' ''h24'' JNull of Inl e \<Rightarrow> Inl e | Inr h24 \<Rightarrow>
     (case dict_get preferred_pair ''url'' (JStr ''N/A'') of Inl e \<Rightarrow> Inl e | Inr url \<Rightarrow>
        Inr [(''DEX'', dex), (''Price'', price), (''Liquidity'', liq), (''Market Cap'', mc),
             (''FDV'', fdv),
             (''24H Price Change'', if is_int_or_float h24 then h24 else JStr ''Not Available''),
             (''URL'', url)])))))))"

text \<open>The reads inside the message of the rug pull branch.\<close>

definition scan_details :: "json \<Rightarrow> py_error + (string \<times> json) list" where
  "scan_details preferred_pair =
     (case dict_get preferred_pair ''dexId'' (JStr ''N/A'') of Inl e \<Rightarrow> Inl e | Inr dex \<Rightarrow>
     (case dict_get preferred_pair ''priceUsd'' (JStr ''Not Available'') of Inl e \<Rightarrow> Inl e | Inr price \<Rightarrow>
     (case dict_get2 preferred_pair ''liquidity'' ''usd'' (JStr ''Not Available'') of Inl e \<Rightarrow> Inl e | Inr liq \<Rightarrow>
     (case dict_get preferred_pair ''marketCap'' (JStr ''Not Available'') of Inl e \<Rightarrow> Inl e | Inr mc \<Rightarrow>
        Inr [(''DEX'', dex), (''Price'', price), (''Liquidity'', liq), (''Market Cap'', mc)]))))"

definition analyze_token_branch :: "world \<Rightarrow> string \<Rightarrow> event list \<times> py_error option" where
  "analyze_token_branch w address =
     (let started = [Replied (Plain (''Analyzing token address: '' @ address)),
                     Invoked (MarketDataFetch address), Invoked PairSelection]
      in (case get_preferred_dex (fetch_dexscreener_data w address) of
            Inl e \<Rightarrow> (started, Some e)
          | Inr preferred_pair \<Rightarrow>
         (case token_details preferred_pair of
            Inl e \<Rightarrow> (started, Some e)
          | Inr details \<Rightarrow>
         (case analyze_rug_pull_risk preferred_pair of
            Inl e \<Rightarrow> (started @ [Invoked Classification], Some e)
          | Inr risk \<Rightarrow>
         (case fetch_social_media_mentions (twitter_search w address) (reddit_search w address) of
            Inl e \<Rightarrow> (started @ [Invoked Classification, Invoked (MentionLookup address)], Some e)
          | Inr mentions \<Rightarrow>
              (started @ [Invoked Classification, Invoked (MentionLookup address),
                          Replied (AnalysisReport address details risk mentions)], None))))))"

definition rug_pull_scan_branch :: "world \<Rightarrow> string \<Rightarrow> event list \<times> py_error option" where
  "rug_pull_scan_branch w address =
     (let started = [Replied (Plain (''Checking Rug Pull Risk for token address: '' @ address)),
                     Invoked (MarketDataFetch address), Invoked PairSelection]
      in (case get_preferred_dex (fetch_dexscreener_data w address) of
            Inl e \<Rightarrow> (started, Some e)
          | Inr preferred_pair \<Rightarrow>
         (case analyze_rug_pull_risk preferred_pair of
            Inl e \<Rightarrow> (started @ [Invoked Classification], Some e)
          | Inr risk \<Rightarrow>
         (case scan_details preferred_pair of
            Inl e \<Rightarrow> (started @ [Invoked Classification], Some e)
          | Inr details \<Rightarrow>
         (case fetch_social_media_mentions (twitter_search w address) (reddit_search w address) of
            Inl e \<Rightarrow> (started @ [Invoked Classification, Invoked (MentionLookup address)], Some e)
          | Inr mentions \<Rightarrow>
              (started @ [Invoked Classification, Invoked (MentionLookup address),
                          Replied (RugPullReport address risk details mentions)], None))))))"

definition invalid_address_prompt :: "string" where
  "invalid_address_prompt =
     ''Invalid address format. Please provide a valid wallet address or token name.''"

definition handle_token_address ::
    "world \<Rightarrow> user_data \<Rightarrow> string \<Rightarrow> user_data \<times> event list \<times> py_error option" where
  "handle_token_address w ud text =
     (let address = strip text
      in if \<not> valid_address_format address
           then (ud, [Replied (Plain invalid_address_prompt)], None)
         else (let ud1 = ud\<lparr> token_address := Some address \<rparr>
               in if selected_option ud1 = Some ''analyze_token''
                    then (ud1, analyze_token_branch w address)
                  else if selected_option ud1 = Some ''rug_pull_scan''
                    then (ud1, rug_pull_scan_branch w address)
                  else (ud1, [], None)))"

definition is_invocation :: "event \<Rightarrow> bool" where
  "is_invocation ev = (case ev of Invoked s \<Rightarrow> True | Replied r \<Rightarrow> False)"


text \<open>Concrete inputs on which the theorems below are exercised.\<close>

definition example_store :: store where
  "example_store =
     \<lparr> list_objs = (\<lambda>r. [])(2 := [0, 1]),
       pair_objs = (\<lambda>r. JNull)(0 := JObj [(''liquidity'', JObj [(''usd'', JInt 5)])],
                                1 := JObj [(''liquidity'', JObj [(''usd'', JInt 9)])]),
       next_ref = 3 \<rparr>"


definition example_world :: world where
  "example_world =
     \<lparr> dexscreener = (\<lambda>address. None),
       twitter_search = (\<lambda>address. TwitterRaises),
       reddit_search = (\<lambda>address. Failure) \<rparr>"

definition example_user_data :: user_data where
  "example_user_data = \<lparr> selected_option = Some ''rug_pull_scan'', token_address = None \<rparr>"


section \<open>Properties of the risk classifier\<close>

lemma dict_get_JObj:
  "dict_get (JObj kvs) k d = Inr (case map_of kvs k of None \<Rightarrow> d | Some v \<Rightarrow> v)"
  by (simp add: dict_get_def)

lemma dict_get2_sub_object:
  assumes "sub_object kvs k1 = Some inner"
  shows "dict_get2 (JObj kvs) k1 k2 d = Inr (case map_of inner k2 of None \<Rightarrow> d | Some v \<Rightarrow> v)"
  using assms
  by (cases "map_of kvs k1")
     (auto simp: dict_get2_def dict_get_def sub_object_def split: json.splits)

lemma num_of_default:
  assumes "absent_or_number v"
  shows "num_of (case v of None \<Rightarrow> JInt 0 | Some x \<Rightarrow> x) = Inr (number_of v)"
proof (cases v)
  case None
  then show ?thesis by (simp add: num_of_def number_of_def)
next
  case (Some x)
  with assms show ?thesis
    by (cases x) (simp_all add: absent_or_number_def num_of_def number_of_def)
qed

lemma num_of_Some:
  assumes "absent_or_number (Some x)"
  shows "num_of x = Inr (number_of (Some x))"
  using num_of_default [OF assms] by simp

lemma value_of_number_of: "value_of (number_of v) = number_or_0 v"
proof (cases v)
  case None
  then show ?thesis by (simp add: value_of_def number_of_def number_or_0_def)
next
  case (Some x)
  then show ?thesis
    by (cases x) (simp_all add: value_of_def number_of_def number_or_0_def)
qed

lemma value_of_liquidity_number: "value_of (liquidity_number p) = liquidityUsd p"
  by (simp add: liquidity_number_def liquidityUsd_def value_of_number_of)

lemma value_of_market_cap_number: "value_of (market_cap_number p) = marketCapUsd p"
  by (simp add: market_cap_number_def marketCapUsd_def value_of_number_of)

lemma value_of_fdv_number: "value_of (fdv_number p) = fullyDilutedValuationUsd p"
  by (simp add: fdv_number_def fullyDilutedValuationUsd_def value_of_number_of)

lemma value_of_price_change_number: "value_of (price_change_number p) = priceChangePercent24h p"
  by (simp add: price_change_number_def priceChangePercent24h_def value_of_number_of
      split: option.splits)

lemmas value_of_numbers =
  value_of_liquidity_number value_of_market_cap_number value_of_fdv_number
  value_of_price_change_number

lemma liquidity_read:
  assumes wf: "liquidity_well_formed p"
  shows "\<exists>l. dict_get2 p ''liquidity'' ''usd'' (JInt 0) = Inr l
             \<and> num_of l = Inr (liquidity_number p)"
proof -
  from wf obtain kvs where p: "p = JObj kvs"
    by (cases p) (simp_all add: liquidity_well_formed_def)
  from wf p obtain liq where liq: "sub_object kvs ''liquidity'' = Some liq"
    and liq_ok: "absent_or_number (map_of liq ''usd'')"
    by (cases "sub_object kvs ''liquidity''") (simp_all add: liquidity_well_formed_def)
  from liq liq_ok show ?thesis
    by (simp add: p dict_get2_sub_object num_of_default liquidity_number_def
        sub_fields_of_def fields_of_def)
qed

lemma pair_fields_well_formed:
  assumes wf: "well_formed_pair p"
  shows "\<exists>l c m f. pair_fields p = Inr (l, c, m, f)
           \<and> num_of l = Inr (liquidity_number p)
           \<and> num_of c = Inr (price_change_number p)
           \<and> num_of m = Inr (market_cap_number p)
           \<and> num_of f = Inr (fdv_number p)"
proof -
  from wf obtain kvs where p: "p = JObj kvs"
    by (cases p) (simp_all add: well_formed_pair_def)
  from wf p have "liquidity_well_formed p"
    by (simp add: well_formed_pair_def)
  then obtain l where l: "dict_get2 p ''liquidity'' ''usd'' (JInt 0) = Inr l"
    and nl: "num_of l = Inr (liquidity_number p)"
    using liquidity_read by blast
  from wf p obtain pc where pc: "sub_object kvs ''priceChange'' = Some pc"
    and percent_ok: "absent_or_number (map_of pc ''percent'')"
    and h24_ok: "absent_or_number (map_of pc ''h24'')"
    by (cases "sub_object kvs ''priceChange''") (simp_all add: well_formed_pair_def)
  from wf p have mc_ok: "absent_or_number (map_of kvs ''marketCap'')"
    and fdv_ok: "absent_or_number (map_of kvs ''fdv'')"
    by (simp_all add: well_formed_pair_def)
  let ?h = "case map_of pc ''h24'' of None \<Rightarrow> JInt 0 | Some x \<Rightarrow> x"
  let ?c = "case map_of pc ''percent'' of None \<Rightarrow> ?h | Some x \<Rightarrow> x"
  let ?m = "case map_of kvs ''marketCap'' of None \<Rightarrow> JInt 0 | Some x \<Rightarrow> x"
  let ?f = "case map_of kvs ''fdv'' of None \<Rightarrow> JInt 0 | Some x \<Rightarrow> x"
  have h: "dict_get2 p ''priceChange'' ''h24'' (JInt 0) = Inr ?h"
    using pc by (simp add: p dict_get2_sub_object)
  have c: "dict_get2 p ''priceChange'' ''percent'' ?h = Inr ?c"
    using pc by (simp add: p dict_get2_sub_object)
  have nc: "num_of ?c = Inr (price_change_number p)"
  proof (cases "map_of pc ''percent''")
    case None
    then show ?thesis
      using pc h24_ok
      by (simp add: p num_of_default price_change_number_def sub_fields_of_def fields_of_def)
  next
    case (Some x)
    with percent_ok have "num_of x = Inr (number_of (Some x))"
      by (simp add: num_of_Some)
    with Some show ?thesis
      using pc by (simp add: p price_change_number_def sub_fields_of_def fields_of_def)
  qed
  have m: "dict_get p ''marketCap'' (JInt 0) = Inr ?m"
    by (simp add: p dict_get_JObj)
  have nm: "num_of ?m = Inr (market_cap_number p)"
    using mc_ok by (simp add: p num_of_default market_cap_number_def fields_of_def)
  have f: "dict_get p ''fdv'' (JInt 0) = Inr ?f"
    by (simp add: p dict_get_JObj)
  have nf: "num_of ?f = Inr (fdv_number p)"
    using fdv_ok by (simp add: p num_of_default fdv_number_def fields_of_def)
  have "pair_fields p = Inr (l, ?c, ?m, ?f)"
    by (simp add: pair_fields_def l h c m f)
  with nl nc nm nf show ?thesis by blast
qed

lemma analyze_well_formed:
  assumes "well_formed_pair p"
  shows "analyze_rug_pull_risk p =
           Inr \<lparr> tier = risk_calculation (liquidity_number p) (price_change_number p)
                           (market_cap_number p) (fdv_number p),
                 liquidity_level = liquidity_level_of (liquidityUsd p),
                 market_cap_level = market_cap_level_of (marketCapUsd p),
                 price_change_level = price_change_level_of (priceChangePercent24h p),
                 fdv_vs_market_cap = fdv_vs_market_cap_of (fullyDilutedValuationUsd p) (marketCapUsd p) \<rparr>"
proof -
  from pair_fields_well_formed [OF assms] obtain l c m f
    where "pair_fields p = Inr (l, c, m, f)" "num_of l = Inr (liquidity_number p)"
      "num_of c = Inr (price_change_number p)" "num_of m = Inr (market_cap_number p)"
      "num_of f = Inr (fdv_number p)" by blast
  then show ?thesis
    by (simp add: analyze_rug_pull_risk_def value_of_numbers)
qed




lemmas pair_reading_defs =
  well_formed_pair_def liquidity_well_formed_def sub_object_def absent_or_number_def
  number_or_0_def fields_of_def sub_fields_of_def liquidityUsd_def marketCapUsd_def
  fullyDilutedValuationUsd_def priceChangePercent24h_def market_cap_overflows_def
  float_overflow_bound_def

lemmas analyze_defs =
  analyze_rug_pull_risk_def pair_fields_def dict_get2_def dict_get_def num_of_def
  risk_calculation_def liquidity_level_of_def market_cap_level_of_def
  price_change_level_of_def fdv_vs_market_cap_of_def value_of_def times_two_def
  greater_than_def float_overflow_bound_def




text \<open>
  Claim C2. The claim says that liquidity 3000, market cap 50000, FDV 60000 (nothing else
  present) is classified Critical. The code returns the High tier there, for ints and for
  floats: the test \<^verbatim>\<open>liquidity < 10000\<close> of the High rule (line 121) comes before the test
  \<^verbatim>\<open>liquidity < 5000\<close> of the Critical rule (line 130), which therefore never decides.
\<close>

theorem critical_example_returns_high:
  "analyze_rug_pull_risk
     (JObj [(''liquidity'', JObj [(''usd'', JInt 3000)]), (''marketCap'', JInt 50000),
            (''fdv'', JInt 60000)])
   = Inr \<lparr> tier = HighRisk, liquidity_level = ''Low'', market_cap_level = ''Low'',
           price_change_level = ''Negative'',
           fdv_vs_market_cap = ''FDV Higher Than Market Cap'' \<rparr>
   \<and> analyze_rug_pull_risk
     (JObj [(''liquidity'', JObj [(''usd'', JFloat 3000)]), (''marketCap'', JFloat 50000),
            (''fdv'', JFloat 60000)])
   = Inr \<lparr> tier = HighRisk, liquidity_level = ''Low'', market_cap_level = ''Low'',
           price_change_level = ''Negative'',
           fdv_vs_market_cap = ''FDV Higher Than Market Cap'' \<rparr>"
  by (simp add: analyze_defs)

text \<open>
  Claim C5. A pair whose four numeric attributes are all absent or zero is classified High.
\<close>

theorem all_default_pair_is_high:
  assumes "well_formed_pair p"
    and "liquidityUsd p = 0" and "marketCapUsd p = 0"
    and "priceChangePercent24h p = 0" and "fullyDilutedValuationUsd p = 0"
  shows "\<exists>v. analyze_rug_pull_risk p = Inr v \<and> tier v = HighRisk"
  using assms by (simp add: analyze_well_formed risk_calculation_def value_of_numbers)

text \<open>Witness for C5, at the empty pair \<^verbatim>\<open>{}\<close>.\<close>

theorem all_default_pair_is_high_witness:
  "well_formed_pair (JObj []) \<and> liquidityUsd (JObj []) = 0 \<and> marketCapUsd (JObj []) = 0
   \<and> priceChangePercent24h (JObj []) = 0 \<and> fullyDilutedValuationUsd (JObj []) = 0
   \<and> (\<exists>v. analyze_rug_pull_risk (JObj []) = Inr v \<and> tier v = HighRisk)"
proof -
  have h: "well_formed_pair (JObj [])" "liquidityUsd (JObj []) = 0" "marketCapUsd (JObj []) = 0"
    "priceChangePercent24h (JObj []) = 0" "fullyDilutedValuationUsd (JObj []) = 0"
    by (simp_all add: pair_reading_defs)
  from all_default_pair_is_high [OF h] h show ?thesis by simp
qed

text \<open>
  Claim C6. Liquidity 15000, market cap 80000, price change 60 and no FDV is classified
  Moderate, whether the price change comes as \<^verbatim>\<open>priceChange.h24\<close> or as
  \<^verbatim>\<open>priceChange.percent\<close>, and whether the numbers are ints or floats.
\<close>

theorem moderate_example:
  "analyze_rug_pull_risk
     (JObj [(''liquidity'', JObj [(''usd'', JInt 15000)]), (''marketCap'', JInt 80000),
            (''priceChange'', JObj [(''h24'', JInt 60)])])
   = Inr \<lparr> tier = ModerateRisk, liquidity_level = ''Medium'', market_cap_level = ''Low'',
           price_change_level = ''Stable'',
           fdv_vs_market_cap = ''FDV Lower Than Market Cap'' \<rparr>
   \<and> analyze_rug_pull_risk
     (JObj [(''liquidity'', JObj [(''usd'', JInt 15000)]), (''marketCap'', JInt 80000),
            (''priceChange'', JObj [(''percent'', JInt 60)])])
   = Inr \<lparr> tier = ModerateRisk, liquidity_level = ''Medium'', market_cap_level = ''Low'',
           price_change_level = ''Stable'',
           fdv_vs_market_cap = ''FDV Lower Than Market Cap'' \<rparr>
   \<and> analyze_rug_pull_risk
     (JObj [(''liquidity'', JObj [(''usd'', JFloat 15000)]), (''marketCap'', JFloat 80000),
            (''priceChange'', JObj [(''h24'', JFloat 60)])])
   = Inr \<lparr> tier = ModerateRisk, liquidity_level = ''Medium'', market_cap_level = ''Low'',
           price_change_level = ''Stable'',
           fdv_vs_market_cap = ''FDV Lower Than Market Cap'' \<rparr>
   \<and> analyze_rug_pull_risk
     (JObj [(''liquidity'', JObj [(''usd'', JFloat 15000)]), (''marketCap'', JFloat 80000),
            (''priceChange'', JObj [(''percent'', JFloat 60)])])
   = Inr \<lparr> tier = ModerateRisk, liquidity_level = ''Medium'', market_cap_level = ''Low'',
           price_change_level = ''Stable'',
           fdv_vs_market_cap = ''FDV Lower Than Market Cap'' \<rparr>"
  by (simp add: analyze_defs)

text \<open>
  Outside the numeric inputs the function does raise: a \<^verbatim>\<open>liquidity\<close> that is \<^verbatim>\<open>null\<close> has
  no \<^verbatim>\<open>get\<close>, and a market cap that is a string cannot be compared with a number.
\<close>

lemma analyze_raises_outside_numbers:
  "analyze_rug_pull_risk (JObj [(''liquidity'', JNull)]) = Inl AttributeError
   \<and> analyze_rug_pull_risk (JObj [(''marketCap'', JStr ''50000'')]) = Inl TypeError"
  by (simp add: analyze_defs)


section \<open>Properties of the address patterns\<close>

lemma char_eq_code: "(c = d) = ((of_char c :: nat) = of_char d)"
  by simp

lemma hex_char_class: "hex_char c = hex_class c"
  unfolding hex_char_def hex_class_def in_range_def
  by (simp add: char_eq_code) arith

lemma base58_char_class: "base58_char c = base58_class c"
  unfolding base58_char_def base58_class_def alnum_class_def in_range_def
  by (simp add: char_eq_code) arith

lemma repeat_to_end_iff:
  "repeat_to_end cls lo hi s =
     (\<exists>n. lo \<le> n \<and> n \<le> hi \<and> n \<le> length s \<and> list_all cls (take n s) \<and> at_dollar (drop n s))"
  by (auto simp: repeat_to_end_def list_ex_iff)

lemma repeat_to_end_whole:
  assumes "lo \<le> length s" and "length s \<le> hi" and "list_all cls s"
  shows "repeat_to_end cls lo hi s"
  unfolding repeat_to_end_iff
  using assms by (intro exI [of _ "length s"]) (simp add: at_dollar_def)

lemma repeat_to_end_no_newline:
  assumes m: "repeat_to_end cls lo hi s"
    and nl: "s = [] \<or> last s \<noteq> CHR 0x0A"
  shows "lo \<le> length s \<and> length s \<le> hi \<and> list_all cls s"
proof -
  from m obtain n where n: "lo \<le> n" "n \<le> hi" "n \<le> length s"
    and cls: "list_all cls (take n s)" and d: "at_dollar (drop n s)"
    unfolding repeat_to_end_iff by blast
  have "drop n s = []"
  proof (rule ccontr)
    assume ne: "drop n s \<noteq> []"
    with d have eq: "drop n s = [CHR 0x0A]" by (simp add: at_dollar_def)
    from ne have "n < length s" by simp
    then have "last s = last (drop n s)" by simp
    with eq have "last s = CHR 0x0A" by simp
    moreover from ne have "s \<noteq> []" by auto
    ultimately show False using nl by simp
  qed
  then have "length s \<le> n" by simp
  with n cls show ?thesis by simp
qed

lemma strip_last:
  assumes "strip t \<noteq> []"
  shows "\<not> py_isspace (last (strip t))"
proof -
  let ?d = "dropWhile py_isspace (rev (dropWhile py_isspace t))"
  from assms have ne: "?d \<noteq> []" by (simp add: strip_def)
  then have "\<not> py_isspace (hd ?d)" by (rule hd_dropWhile)
  moreover have "last (strip t) = hd ?d" by (simp add: strip_def last_rev)
  ultimately show ?thesis by simp
qed

lemma newline_is_space: "py_isspace (CHR 0x0A)"
  by (simp add: py_isspace_def)

lemma strip_no_newline: "strip t = [] \<or> last (strip t) \<noteq> CHR 0x0A"
  using strip_last [of t] newline_is_space by metis

lemma ethereum_shape_matches:
  assumes "ethereum_shape s"
  shows "match_ethereum s"
proof -
  from assms have len: "length (drop 2 s) = 40" and pre: "take 2 s = ''0x''"
    and hex: "list_all hex_class (drop 2 s)"
    by (simp_all add: ethereum_shape_def hex_char_class [abs_def])
  from len hex have "repeat_to_end hex_class 40 40 (drop 2 s)"
    by (intro repeat_to_end_whole) simp_all
  with pre show ?thesis by (simp add: match_ethereum_def)
qed

lemma solana_shape_matches:
  assumes "solana_shape s"
  shows "match_solana s"
  using assms
  by (simp add: solana_shape_def match_solana_def base58_char_class [abs_def] repeat_to_end_whole)

lemma match_ethereum_shape:
  assumes m: "match_ethereum s" and nl: "s = [] \<or> last s \<noteq> CHR 0x0A"
  shows "ethereum_shape s"
proof -
  from m have pre: "take 2 s = ''0x''" and r: "repeat_to_end hex_class 40 40 (drop 2 s)"
    by (simp_all add: match_ethereum_def)
  have "drop 2 s = [] \<or> last (drop 2 s) \<noteq> CHR 0x0A"
  proof (cases "drop 2 s = []")
    case True then show ?thesis by simp
  next
    case False
    then have "2 < length s" by simp
    then have "last (drop 2 s) = last s" by simp
    moreover from False have "s \<noteq> []" by auto
    ultimately show ?thesis using nl by simp
  qed
  from repeat_to_end_no_newline [OF r this]
  have "length (drop 2 s) = 40" and "list_all hex_class (drop 2 s)" by simp_all
  with pre show ?thesis
    by (simp add: ethereum_shape_def hex_char_class [abs_def])
qed

lemma match_solana_shape:
  assumes m: "match_solana s" and nl: "s = [] \<or> last s \<noteq> CHR 0x0A"
  shows "solana_shape s"
  using repeat_to_end_no_newline [OF m [unfolded match_solana_def] nl]
  by (simp add: solana_shape_def base58_char_class [abs_def])

lemma valid_strip_iff:
  "valid_address_format (strip t) = (ethereum_shape (strip t) \<or> solana_shape (strip t))"
  using strip_no_newline [of t]
  by (auto simp: valid_address_format_def
      intro: ethereum_shape_matches solana_shape_matches match_ethereum_shape match_solana_shape)

text \<open>
  The pattern alone also matches an address that is followed by one newline, as \<^verbatim>\<open>$\<close> does
  in Python; \<open>strip\<close> removes it before the handler tests the address.
\<close>

lemma trailing_newline_matches:
  "match_ethereum (''0x1234567890abcdefABCDEF1234567890abcdefAB'' @ [CHR 0x0A])
   \<and> strip (''0x1234567890abcdefABCDEF1234567890abcdefAB'' @ [CHR 0x0A])
       = ''0x1234567890abcdefABCDEF1234567890abcdefAB''"
  by (simp add: match_ethereum_def repeat_to_end_def at_dollar_def hex_class_def in_range_def
      strip_def py_isspace_def)

text \<open>
  Claim C4. Every address that is \<^verbatim>\<open>0x\<close> followed by 40 hex characters is tagged
  \<open>Ethereum\<close>, and no input at all is tagged \<open>Polygon\<close>: the Polygon branch repeats the
  test of the first branch.
\<close>

theorem ethereum_never_polygon:
  "(ethereum_shape s \<longrightarrow> detect_blockchain s = ''Ethereum'')
   \<and> detect_blockchain s \<noteq> ''Polygon''"
proof
  show "ethereum_shape s \<longrightarrow> detect_blockchain s = ''Ethereum''"
    by (simp add: detect_blockchain_def ethereum_shape_matches)
  show "detect_blockchain s \<noteq> ''Polygon''"
    by (simp add: detect_blockchain_def)
qed

text \<open>Witness for C4, at an address of 40 hex digits in both cases.\<close>

theorem ethereum_never_polygon_witness:
  "ethereum_shape ''0x1234567890abcdefABCDEF1234567890abcdefAB''
   \<and> detect_blockchain ''0x1234567890abcdefABCDEF1234567890abcdefAB'' = ''Ethereum''
   \<and> detect_blockchain ''0x1234567890abcdefABCDEF1234567890abcdefAB'' \<noteq> ''Polygon''"
proof -
  have h: "ethereum_shape ''0x1234567890abcdefABCDEF1234567890abcdefAB''"
    by (simp add: ethereum_shape_def hex_char_def)
  from ethereum_never_polygon [of "''0x1234567890abcdefABCDEF1234567890abcdefAB''"] h
  show ?thesis by blast
qed

text \<open>
  Claim C10. Every address that the validation gate accepts is tagged \<open>Ethereum\<close> or
  \<open>Solana\<close> by the chain detector, and so never \<open>Binance\<close>, \<open>Polygon\<close> or \<open>Unknown\<close>:
  the gate is the alternation of the detector's first two patterns.
\<close>

theorem accepted_is_ethereum_or_solana:
  assumes "valid_address_format s"
  shows "(detect_blockchain s = ''Ethereum'' \<or> detect_blockchain s = ''Solana'')
         \<and> detect_blockchain s \<noteq> ''Binance'' \<and> detect_blockchain s \<noteq> ''Polygon''
         \<and> detect_blockchain s \<noteq> ''Unknown''"
  using assms by (auto simp: valid_address_format_def detect_blockchain_def)

text \<open>Witness for C10, at an address of 43 base58 characters.\<close>

theorem accepted_is_ethereum_or_solana_witness:
  "valid_address_format ''So11111111111111111111111111111111111111112''
   \<and> (detect_blockchain ''So11111111111111111111111111111111111111112'' = ''Ethereum''
        \<or> detect_blockchain ''So11111111111111111111111111111111111111112'' = ''Solana'')"
proof -
  have "solana_shape ''So11111111111111111111111111111111111111112''"
    by (simp add: solana_shape_def base58_char_def alnum_class_def in_range_def)
  then have h: "valid_address_format ''So11111111111111111111111111111111111111112''"
    by (simp add: valid_address_format_def solana_shape_matches)
  from accepted_is_ethereum_or_solana [OF h] h show ?thesis by blast
qed


section \<open>Properties of the pair selector\<close>

lemma collect_Inr:
  assumes "\<forall>x \<in> set xs. f x = Inr (g x)"
  shows "collect f xs = Inr (map g xs)"
  using assms by (induction xs) simp_all

lemma first_satisfying:
  assumes "filter P ps \<noteq> []"
  shows "\<exists>i < length ps. hd (filter P ps) = ps ! i \<and> P (ps ! i) \<and> (\<forall>j < i. \<not> P (ps ! j))"
  using assms
proof (induction ps)
  case Nil
  then show ?case by simp
next
  case (Cons p ps)
  show ?case
  proof (cases "P p")
    case True
    then show ?thesis by (intro exI [of _ 0]) simp
  next
    case False
    with Cons.prems have "filter P ps \<noteq> []" by simp
    from Cons.IH [OF this] obtain i where i: "i < length ps" "hd (filter P ps) = ps ! i"
      "P (ps ! i)" "\<forall>j < i. \<not> P (ps ! j)" by blast
    have "\<forall>j < Suc i. \<not> P ((p # ps) ! j)"
      using False i(4) by (auto simp: nth_Cons split: nat.splits)
    with False i show ?thesis by (intro exI [of _ "Suc i"]) simp
  qed
qed

lemma sorted_le_last:
  fixes zs :: "real list"
  assumes "sorted zs" and "z \<in> set zs"
  shows "z \<le> last zs"
  using assms by (induction zs) auto

lemma last_filter_keeps:
  assumes "zs \<noteq> []" and "P (last zs)"
  shows "last (filter P zs) = last zs"
  using assms by (induction zs) (auto simp: filter_empty_conv)

lemma last_stable_sort:
  fixes k :: "'a \<Rightarrow> real"
  assumes ne: "ps \<noteq> []"
  defines "ys \<equiv> sort_key k (rev ps)"
  shows "(\<forall>p \<in> set ps. k p \<le> k (last ys))
         \<and> last ys = hd (filter (\<lambda>p. k p = k (last ys)) ps)"
proof -
  have ys_ne: "ys \<noteq> []" using ne by (metis ys_def length_sort length_rev length_0_conv)
  have srt: "sorted (map k ys)" by (simp add: ys_def)
  have set_ys: "set ys = set ps" by (simp add: ys_def)
  have top: "\<forall>p \<in> set ps. k p \<le> k (last ys)"
  proof
    fix p assume "p \<in> set ps"
    then have "k p \<in> set (map k ys)" using set_ys by simp
    with srt have "k p \<le> last (map k ys)" by (rule sorted_le_last)
    then show "k p \<le> k (last ys)" using ys_ne by (simp add: last_map)
  qed
  let ?P = "\<lambda>p. k p = k (last ys)"
  have "last ys = last (filter ?P ys)" by (simp add: last_filter_keeps ys_ne)
  also have "filter ?P ys = filter ?P (rev ps)"
    unfolding ys_def by (rule sort_key_stable)
  also have "last (filter ?P (rev ps)) = hd (filter ?P ps)"
    by (simp add: rev_filter [symmetric] last_rev)
  finally show ?thesis using top by simp
qed

lemma sorted_reverse_head:
  fixes kn :: "'a \<Rightarrow> number"
  assumes ne: "xs \<noteq> []"
  shows "\<exists>i < length xs.
           hd (map fst (rev (sort_key (\<lambda>p. value_of (snd p)) (rev (zip xs (map kn xs)))))) = xs ! i
           \<and> (\<forall>j < length xs. value_of (kn (xs ! j)) \<le> value_of (kn (xs ! i)))
           \<and> (\<forall>j < i. value_of (kn (xs ! j)) < value_of (kn (xs ! i)))"
proof -
  let ?ps = "zip xs (map kn xs)"
  let ?v = "\<lambda>p::'a \<times> number. value_of (snd p)"
  let ?ys = "sort_key ?v (rev ?ps)"
  have ps_ne: "?ps \<noteq> []" using ne by (cases xs) simp_all
  have ys_ne: "?ys \<noteq> []" using ps_ne by (metis length_sort length_rev length_0_conv)
  from last_stable_sort [OF ps_ne, of ?v]
  have top: "\<forall>p \<in> set ?ps. ?v p \<le> ?v (last ?ys)"
    and fst_max: "last ?ys = hd (filter (\<lambda>p. ?v p = ?v (last ?ys)) ?ps)" by simp_all
  let ?P = "\<lambda>p::'a \<times> number. ?v p = ?v (last ?ys)"
  have set_ys: "set ?ys = set ?ps" by simp
  have "last ?ys \<in> set ?ys" using ys_ne by (rule last_in_set)
  then have "last ?ys \<in> set ?ps" unfolding set_ys .
  then have "filter ?P ?ps \<noteq> []" by (auto simp: filter_empty_conv)
  from first_satisfying [OF this] obtain i where i: "i < length ?ps"
    and hd_i: "hd (filter ?P ?ps) = ?ps ! i" and Pi: "?P (?ps ! i)"
    and least: "\<forall>j < i. \<not> ?P (?ps ! j)" by blast
  from i have i_len: "i < length xs" by simp
  have nth_ps: "\<And>j. j < length xs \<Longrightarrow> ?ps ! j = (xs ! j, kn (xs ! j))" by simp
  have last_eq: "last ?ys = (xs ! i, kn (xs ! i))"
    using fst_max hd_i nth_ps [OF i_len] by simp
  have le: "\<forall>j < length xs. value_of (kn (xs ! j)) \<le> value_of (kn (xs ! i))"
  proof (intro allI impI)
    fix j assume j: "j < length xs"
    then have "?ps ! j \<in> set ?ps" by (simp del: nth_zip)
    with top have "?v (?ps ! j) \<le> ?v (last ?ys)" by blast
    then show "value_of (kn (xs ! j)) \<le> value_of (kn (xs ! i))"
      using nth_ps [OF j] last_eq by simp
  qed
  have lt: "\<forall>j < i. value_of (kn (xs ! j)) < value_of (kn (xs ! i))"
  proof (intro allI impI)
    fix j assume j: "j < i"
    then have jl: "j < length xs" using i_len by simp
    from least j have "?v (?ps ! j) \<noteq> ?v (last ?ys)" by blast
    then have "value_of (kn (xs ! j)) \<noteq> value_of (kn (xs ! i))"
      using nth_ps [OF jl] last_eq by simp
    moreover from le jl have "value_of (kn (xs ! j)) \<le> value_of (kn (xs ! i))" by blast
    ultimately show "value_of (kn (xs ! j)) < value_of (kn (xs ! i))" by simp
  qed
  have "hd (map fst (rev ?ys)) = fst (last ?ys)"
    using ys_ne by (simp add: hd_map hd_rev)
  with last_eq have "hd (map fst (rev ?ys)) = xs ! i" by simp
  with i_len le lt show ?thesis by blast
qed

lemma collect_keys_numbers:
  assumes "\<forall>x \<in> set xs. \<exists>v. key x = Inr v \<and> num_of v = Inr (kn x)"
  shows "\<exists>vs. collect key xs = Inr vs \<and> collect num_of vs = Inr (map kn xs)"
  using assms
proof (induction xs)
  case Nil
  then show ?case by simp
next
  case (Cons x xs)
  then obtain v where v: "key x = Inr v" "num_of v = Inr (kn x)" by auto
  from Cons obtain vs where vs: "collect key xs = Inr vs" "collect num_of vs = Inr (map kn xs)"
    by auto
  from v vs have "collect key (x # xs) = Inr (v # vs)"
    and "collect num_of (v # vs) = Inr (map kn (x # xs))" by simp_all
  then show ?case by blast
qed

lemma py_sorted_reverse_numeric:
  assumes keys: "\<forall>x \<in> set xs. \<exists>v. key x = Inr v \<and> num_of v = Inr (kn x)"
  shows "py_sorted_reverse key xs =
           Inr (if length xs \<le> 1 then xs
                else map fst (rev (sort_key (\<lambda>p. value_of (snd p)) (rev (zip xs (map kn xs))))))"
proof -
  from collect_keys_numbers [OF keys] obtain vs where c: "collect key xs = Inr vs"
    and n: "collect num_of vs = Inr (map kn xs)" by blast
  show ?thesis
    by (simp add: py_sorted_reverse_def c n)
qed

lemma py_sorted_reverse_first:
  assumes ne: "xs \<noteq> []"
    and keys: "\<forall>x \<in> set xs. \<exists>v. key x = Inr v \<and> num_of v = Inr (kn x)"
  shows "\<exists>i < length xs. \<exists>rest.
           py_sorted_reverse key xs = Inr (xs ! i # rest)
           \<and> (\<forall>j < length xs. value_of (kn (xs ! j)) \<le> value_of (kn (xs ! i)))
           \<and> (\<forall>j < i. value_of (kn (xs ! j)) < value_of (kn (xs ! i)))"
proof (cases "length xs \<le> 1")
  case True
  with ne obtain x where xs: "xs = [x]"
    by (cases xs) auto
  have "py_sorted_reverse key xs = Inr (xs ! 0 # [])"
    using py_sorted_reverse_numeric [OF keys] by (simp add: xs)
  then show ?thesis
    by (intro exI [of _ 0]) (simp add: xs)
next
  case False
  let ?r = "map fst (rev (sort_key (\<lambda>p. value_of (snd p)) (rev (zip xs (map kn xs)))))"
  have r: "py_sorted_reverse key xs = Inr ?r"
    using py_sorted_reverse_numeric [OF keys] False by simp
  have "length ?r = length xs" by simp
  with ne have r_ne: "?r \<noteq> []" by (metis length_0_conv)
  then have split: "?r = hd ?r # tl ?r" by simp
  from sorted_reverse_head [OF ne, of kn] obtain i where i: "i < length xs"
    and h: "hd ?r = xs ! i"
    and le: "\<forall>j < length xs. value_of (kn (xs ! j)) \<le> value_of (kn (xs ! i))"
    and lt: "\<forall>j < i. value_of (kn (xs ! j)) < value_of (kn (xs ! i))" by blast
  from r split h have "py_sorted_reverse key xs = Inr (xs ! i # tl ?r)" by metis
  with i le lt show ?thesis by blast
qed

lemma liquidity_key_well_formed:
  assumes "liquidity_well_formed x"
  shows "\<exists>v. liquidity_key x = Inr v \<and> num_of v = Inr (liquidity_number x)"
  using liquidity_read [OF assms] by (simp add: liquidity_key_def)

text \<open>
  Claim C3. On an empty collection the selector returns no pair (the empty dict). On a
  non-empty collection whose pairs carry a numeric or absent \<^verbatim>\<open>liquidity.usd\<close> it returns the
  element at some index \<open>i\<close> whose liquidity (0 when absent) is maximal, and every element
  before \<open>i\<close> has strictly less: it is the first of the maximal ones in input order.
\<close>

theorem get_preferred_dex_selects:
  "get_preferred_dex (JArr []) = Inr (JObj [])
   \<and> (xs \<noteq> [] \<and> (\<forall>x \<in> set xs. liquidity_well_formed x) \<longrightarrow>
        (\<exists>i < length xs.
           get_preferred_dex (JArr xs) = Inr (xs ! i)
           \<and> (\<forall>j < length xs. liquidityUsd (xs ! j) \<le> liquidityUsd (xs ! i))
           \<and> (\<forall>j < i. liquidityUsd (xs ! j) < liquidityUsd (xs ! i))))"
proof (intro conjI impI)
  show "get_preferred_dex (JArr []) = Inr (JObj [])"
    by (simp add: get_preferred_dex_def truthy_def)
next
  assume a: "xs \<noteq> [] \<and> (\<forall>x \<in> set xs. liquidity_well_formed x)"
  then have ne: "xs \<noteq> []"
    and keys: "\<forall>x \<in> set xs. \<exists>v. liquidity_key x = Inr v \<and> num_of v = Inr (liquidity_number x)"
    by (simp_all add: liquidity_key_well_formed)
  from py_sorted_reverse_first [OF ne keys] obtain i rest where i: "i < length xs"
    and r: "py_sorted_reverse liquidity_key xs = Inr (xs ! i # rest)"
    and le: "\<forall>j < length xs. liquidityUsd (xs ! j) \<le> liquidityUsd (xs ! i)"
    and lt: "\<forall>j < i. liquidityUsd (xs ! j) < liquidityUsd (xs ! i)"
    unfolding value_of_liquidity_number by blast
  have "get_preferred_dex (JArr xs) = Inr (xs ! i)"
    using ne by (simp add: get_preferred_dex_def truthy_def r)
  with i le lt
  show "\<exists>i < length xs.
           get_preferred_dex (JArr xs) = Inr (xs ! i)
           \<and> (\<forall>j < length xs. liquidityUsd (xs ! j) \<le> liquidityUsd (xs ! i))
           \<and> (\<forall>j < i. liquidityUsd (xs ! j) < liquidityUsd (xs ! i))" by blast
qed

text \<open>
  Witness for C3: four pairs with liquidity 5, 9, 9 and absent; the second is returned, the
  first of the two that tie for the maximum.
\<close>

theorem get_preferred_dex_selects_witness:
  "[JObj [(''dexId'', JStr ''a''), (''liquidity'', JObj [(''usd'', JInt 5)])],
    JObj [(''dexId'', JStr ''b''), (''liquidity'', JObj [(''usd'', JInt 9)])],
    JObj [(''dexId'', JStr ''c''), (''liquidity'', JObj [(''usd'', JInt 9)])],
    JObj [(''dexId'', JStr ''d'')]] \<noteq> []
   \<and> list_all liquidity_well_formed
         [JObj [(''dexId'', JStr ''a''), (''liquidity'', JObj [(''usd'', JInt 5)])],
          JObj [(''dexId'', JStr ''b''), (''liquidity'', JObj [(''usd'', JInt 9)])],
          JObj [(''dexId'', JStr ''c''), (''liquidity'', JObj [(''usd'', JInt 9)])],
          JObj [(''dexId'', JStr ''d'')]]
   \<and> get_preferred_dex
        (JArr [JObj [(''dexId'', JStr ''a''), (''liquidity'', JObj [(''usd'', JInt 5)])],
               JObj [(''dexId'', JStr ''b''), (''liquidity'', JObj [(''usd'', JInt 9)])],
               JObj [(''dexId'', JStr ''c''), (''liquidity'', JObj [(''usd'', JInt 9)])],
               JObj [(''dexId'', JStr ''d'')]])
      = Inr (JObj [(''dexId'', JStr ''b''), (''liquidity'', JObj [(''usd'', JInt 9)])])"
proof -
  let ?a = "JObj [(''dexId'', JStr ''a''), (''liquidity'', JObj [(''usd'', JInt 5)])]"
  let ?b = "JObj [(''dexId'', JStr ''b''), (''liquidity'', JObj [(''usd'', JInt 9)])]"
  let ?c = "JObj [(''dexId'', JStr ''c''), (''liquidity'', JObj [(''usd'', JInt 9)])]"
  let ?d = "JObj [(''dexId'', JStr ''d'')]"
  let ?xs = "[?a, ?b, ?c, ?d]"
  have liq: "liquidityUsd ?a = 5" "liquidityUsd ?b = 9" "liquidityUsd ?c = 9" "liquidityUsd ?d = 0"
    by (simp_all add: liquidityUsd_def sub_fields_of_def fields_of_def sub_object_def number_or_0_def)
  have h: "?xs \<noteq> [] \<and> (\<forall>x \<in> set ?xs. liquidity_well_formed x)"
    by (simp add: liquidity_well_formed_def sub_object_def absent_or_number_def)
  from get_preferred_dex_selects [of ?xs] h
  obtain i where i: "i < length ?xs" and r: "get_preferred_dex (JArr ?xs) = Inr (?xs ! i)"
    and le: "\<forall>j < length ?xs. liquidityUsd (?xs ! j) \<le> liquidityUsd (?xs ! i)"
    and lt: "\<forall>j < i. liquidityUsd (?xs ! j) < liquidityUsd (?xs ! i)" by blast
  have "i \<noteq> 0"
  proof
    assume "i = 0"
    with le [rule_format, of 1] liq show False by simp
  qed
  moreover have "i \<noteq> 3"
  proof
    assume "i = 3"
    with le [rule_format, of 1] liq show False by simp
  qed
  moreover have "i \<noteq> 2"
  proof
    assume "i = 2"
    with lt [rule_format, of 1] liq show False by simp
  qed
  moreover from i have "i = 0 \<or> i = 1 \<or> i = 2 \<or> i = 3" by auto
  ultimately have "i = 1" by blast
  with r h show ?thesis by (simp add: list_all_iff)
qed

text \<open>An int and a float of one value tie as well, and the first one is returned.\<close>

lemma get_preferred_dex_tie_evaluated:
  "get_preferred_dex
        (JArr [JObj [(''dexId'', JStr ''a''), (''liquidity'', JObj [(''usd'', JInt 5)])],
               JObj [(''dexId'', JStr ''b''), (''liquidity'', JObj [(''usd'', JFloat 9)])],
               JObj [(''dexId'', JStr ''c''), (''liquidity'', JObj [(''usd'', JInt 9)])]])
      = Inr (JObj [(''dexId'', JStr ''b''), (''liquidity'', JObj [(''usd'', JFloat 9)])])"
  by (simp add: get_preferred_dex_def truthy_def py_sorted_reverse_def liquidity_key_def
      dict_get2_def dict_get_def num_of_def value_of_def)

text \<open>
  On the store, whatever was allocated before the call is left as it was, also when the call
  raises.
\<close>

lemma store_frame:
  "r < next_ref st \<Longrightarrow>
     list_objs (fst (get_preferred_dex_store st pairs)) r = list_objs st r
     \<and> pair_objs (fst (get_preferred_dex_store st pairs)) r = pair_objs st r"
  by (auto simp: get_preferred_dex_store_def new_list_def new_dict_def Let_def
      split: sum.splits list.splits)

text \<open>
  Claim C9. The selector does not mutate its input: after the call the list object that was
  passed holds the same references in the same order, and each pair object it refers to has
  the content it had before.
\<close>

theorem get_preferred_dex_store_frame:
  assumes "pairs < next_ref st"
    and "\<forall>r \<in> set (list_objs st pairs). r < next_ref st"
  shows "list_objs (fst (get_preferred_dex_store st pairs)) pairs = list_objs st pairs
         \<and> map (pair_objs (fst (get_preferred_dex_store st pairs)))
               (list_objs (fst (get_preferred_dex_store st pairs)) pairs)
           = map (pair_objs st) (list_objs st pairs)"
proof -
  let ?st' = "fst (get_preferred_dex_store st pairs)"
  have l: "list_objs ?st' pairs = list_objs st pairs"
    using assms(1) by (simp add: store_frame)
  have "\<forall>r \<in> set (list_objs st pairs). pair_objs ?st' r = pair_objs st r"
    using assms(2) by (simp add: store_frame)
  then have "map (pair_objs ?st') (list_objs st pairs) = map (pair_objs st) (list_objs st pairs)"
    by simp
  with l show ?thesis by simp
qed

text \<open>Witness for C9, on a store with a list of two pairs.\<close>

theorem get_preferred_dex_store_frame_witness:
  "2 < next_ref example_store
   \<and> list_all (\<lambda>r. r < next_ref example_store) (list_objs example_store 2)
   \<and> list_objs (fst (get_preferred_dex_store example_store 2)) 2 = [0, 1]
   \<and> map (pair_objs (fst (get_preferred_dex_store example_store 2)))
         (list_objs (fst (get_preferred_dex_store example_store 2)) 2)
      = [JObj [(''liquidity'', JObj [(''usd'', JInt 5)])],
         JObj [(''liquidity'', JObj [(''usd'', JInt 9)])]]"
proof -
  have h1: "2 < next_ref example_store"
    by (simp add: example_store_def)
  have h2: "\<forall>r \<in> set (list_objs example_store 2). r < next_ref example_store"
    by (simp add: example_store_def)
  have l: "list_objs example_store 2 = [0, 1]"
    by (simp add: example_store_def)
  have p: "map (pair_objs example_store) [0, 1]
             = [JObj [(''liquidity'', JObj [(''usd'', JInt 5)])],
                JObj [(''liquidity'', JObj [(''usd'', JInt 9)])]]"
    by (simp add: example_store_def)
  have h3: "list_all (\<lambda>r. r < next_ref example_store) (list_objs example_store 2)"
    using h2 by (simp add: list_all_iff)
  from get_preferred_dex_store_frame [OF h1 h2] l p h1 h3 show ?thesis
    by metis
qed

text \<open>
  The function on the store selects as the function on values does: the reference it
  returns is the first one of maximal liquidity.
\<close>

lemma get_preferred_dex_store_selects:
  assumes ne: "list_objs st pairs \<noteq> []"
    and wf: "\<forall>r \<in> set (list_objs st pairs). liquidity_well_formed (pair_objs st r)"
  shows "\<exists>i < length (list_objs st pairs).
           snd (get_preferred_dex_store st pairs) = Inr (list_objs st pairs ! i)
           \<and> (\<forall>j < length (list_objs st pairs).
                 liquidityUsd (pair_objs st (list_objs st pairs ! j))
                   \<le> liquidityUsd (pair_objs st (list_objs st pairs ! i)))
           \<and> (\<forall>j < i. liquidityUsd (pair_objs st (list_objs st pairs ! j))
                         < liquidityUsd (pair_objs st (list_objs st pairs ! i)))"
proof -
  let ?xs = "list_objs st pairs"
  let ?key = "\<lambda>r. liquidity_key (pair_objs st r)"
  let ?k = "\<lambda>r. liquidityUsd (pair_objs st r)"
  let ?kn = "\<lambda>r. liquidity_number (pair_objs st r)"
  from wf have keys: "\<forall>r \<in> set ?xs. \<exists>v. ?key r = Inr v \<and> num_of v = Inr (?kn r)"
    by (simp add: liquidity_key_well_formed)
  from py_sorted_reverse_first [OF ne keys] obtain i rest where i: "i < length ?xs"
    and r: "py_sorted_reverse ?key ?xs = Inr (?xs ! i # rest)"
    and le: "\<forall>j < length ?xs. ?k (?xs ! j) \<le> ?k (?xs ! i)"
    and lt: "\<forall>j < i. ?k (?xs ! j) < ?k (?xs ! i)"
    unfolding value_of_liquidity_number by blast
  have "snd (get_preferred_dex_store st pairs) = Inr (?xs ! i)"
    using ne by (simp add: get_preferred_dex_store_def r Let_def)
  with i le lt show ?thesis by blast
qed

lemma store_example_selects:
  "snd (get_preferred_dex_store example_store 2) = Inr 1"
  by (simp add: example_store_def get_preferred_dex_store_def py_sorted_reverse_def
      liquidity_key_def dict_get2_def dict_get_def num_of_def value_of_def new_list_def Let_def)


section \<open>Properties of the mention counts\<close>

lemma reddit_block_count:
  "fst (reddit_block rd mc) = mc\<lparr> reddit := reddit mc + posts_delivered rd \<rparr>"
  by (induction rd arbitrary: mc) simp_all

lemma twitter_block_count:
  "fst (twitter_block tw \<lparr> twitter = 0, reddit = 0 \<rparr>)
     = \<lparr> twitter = tweets_returned tw, reddit = 0 \<rparr>"
  by (cases tw) (auto simp: twitter_block_def tweets_returned_def split: option.splits)

text \<open>
  Claim C7 says that a failing source contributes a count of 0. For Reddit that holds only
  when the listing raises before its first post: the count is incremented inside the
  \<^verbatim>\<open>try\<close>, post by post, and the \<^verbatim>\<open>except\<close> keeps what was counted. Counterexample to C7:
  Twitter returns three tweets, the Reddit listing gives two posts and then raises; the
  result is Twitter 3, Reddit 2, and not Reddit 0.
\<close>

theorem mentions_partial_count_counterexample:
  "reddit_fails (Post ''p1'' (Post ''p2'' Failure))
   \<and> fetch_social_media_mentions (TwitterData (Some [''t1'', ''t2'', ''t3'']))
        (Post ''p1'' (Post ''p2'' Failure))
      = Inr \<lparr> twitter = 3, reddit = 2 \<rparr>
   \<and> fetch_social_media_mentions (TwitterData (Some [''t1'', ''t2'', ''t3'']))
        (Post ''p1'' (Post ''p2'' Failure))
      \<noteq> Inr \<lparr> twitter = 3, reddit = 0 \<rparr>"
  by (simp add: fetch_social_media_mentions_def twitter_block_def)

text \<open>
  Claim C7, amended. The function raises nothing. The Twitter count is the number of tweets
  returned, 0 when the call raises or returns no data; the Reddit count is the number of
  posts the listing gave before it ended or raised, 0 when it raises at once. Each count
  depends on its own source only.
\<close>

theorem mentions_never_raise:
  "(\<exists>m. fetch_social_media_mentions tw rd = Inr m
         \<and> twitter m = tweets_returned tw
         \<and> reddit m = posts_delivered rd)
   \<and> tweets_returned TwitterRaises = 0
   \<and> posts_delivered Failure = 0"
  by (simp add: fetch_social_media_mentions_def twitter_block_count reddit_block_count
      tweets_returned_def Let_def)

text \<open>
  Witness for C7: Reddit raises at once and Twitter returns three tweets, which gives 3 and
  0; Twitter raises and Reddit gives two posts, which gives 0 and 2.
\<close>

theorem mentions_never_raise_witness:
  "fetch_social_media_mentions (TwitterData (Some [''t1'', ''t2'', ''t3''])) Failure
     = Inr \<lparr> twitter = 3, reddit = 0 \<rparr>
   \<and> fetch_social_media_mentions TwitterRaises (Post ''p1'' (Post ''p2'' Exhausted))
     = Inr \<lparr> twitter = 0, reddit = 2 \<rparr>"
proof -
  have rec: "\<And>m :: mentions_count. m = \<lparr> twitter = twitter m, reddit = reddit m \<rparr>"
    by simp
  from mentions_never_raise [of "TwitterData (Some [''t1'', ''t2'', ''t3''])" Failure]
  obtain m where m: "fetch_social_media_mentions (TwitterData (Some [''t1'', ''t2'', ''t3''])) Failure = Inr m"
    and "twitter m = tweets_returned (TwitterData (Some [''t1'', ''t2'', ''t3'']))"
    and "reddit m = posts_delivered Failure"
    by blast
  then have "m = \<lparr> twitter = 3, reddit = 0 \<rparr>"
    using rec [of m] by (simp add: tweets_returned_def)
  with m have a: "fetch_social_media_mentions (TwitterData (Some [''t1'', ''t2'', ''t3''])) Failure
     = Inr \<lparr> twitter = 3, reddit = 0 \<rparr>" by simp
  from mentions_never_raise [of TwitterRaises "Post ''p1'' (Post ''p2'' Exhausted)"]
  obtain n where n: "fetch_social_media_mentions TwitterRaises (Post ''p1'' (Post ''p2'' Exhausted)) = Inr n"
    and "twitter n = tweets_returned TwitterRaises"
    and "reddit n = posts_delivered (Post ''p1'' (Post ''p2'' Exhausted))"
    by blast
  then have "n = \<lparr> twitter = 0, reddit = 2 \<rparr>"
    using rec [of n] by (simp add: tweets_returned_def)
  with n a show ?thesis by simp
qed


section \<open>Properties of the message handler\<close>

text \<open>
  Claim C8. The handler strips the message text and then tests it. The stripped text is
  accepted exactly when it is \<^verbatim>\<open>0x\<close> and 40 hex characters or 32 to 44 base58 characters.
  When it is rejected the handler sends the prompt about the invalid format and nothing
  else: no pipeline step is called and the user data are unchanged. When it is accepted the
  address is stored in the user data.
\<close>

theorem invalid_address_not_processed:
  "valid_address_format (strip text) = (ethereum_shape (strip text) \<or> solana_shape (strip text))
   \<and> (\<not> (ethereum_shape (strip text) \<or> solana_shape (strip text)) \<longrightarrow>
        handle_token_address w ud text = (ud, [Replied (Plain invalid_address_prompt)], None)
        \<and> filter is_invocation (fst (snd (handle_token_address w ud text))) = [])
   \<and> (ethereum_shape (strip text) \<or> solana_shape (strip text) \<longrightarrow>
        token_address (fst (handle_token_address w ud text)) = Some (strip text))"
proof (intro conjI impI)
  show v: "valid_address_format (strip text)
             = (ethereum_shape (strip text) \<or> solana_shape (strip text))"
    by (rule valid_strip_iff)
  {
    assume "\<not> (ethereum_shape (strip text) \<or> solana_shape (strip text))"
    with v have "\<not> valid_address_format (strip text)" by simp
    then show r: "handle_token_address w ud text
                   = (ud, [Replied (Plain invalid_address_prompt)], None)"
      by (simp add: handle_token_address_def)
    show "filter is_invocation (fst (snd (handle_token_address w ud text))) = []"
      by (simp add: r is_invocation_def)
  }
  {
    assume "ethereum_shape (strip text) \<or> solana_shape (strip text)"
    with v have "valid_address_format (strip text)" by simp
    then show "token_address (fst (handle_token_address w ud text)) = Some (strip text)"
      by (simp add: handle_token_address_def Let_def)
  }
qed

text \<open>
  Witness for C8: a Binance-shaped address of 42 letters and digits is rejected with the
  prompt; an Ethereum address between spaces is accepted and stored without the spaces.
\<close>

theorem invalid_address_not_processed_witness:
  "\<not> (ethereum_shape (strip ''0O34567890abcdefABCDEF1234567890abcdefABCD'')
       \<or> solana_shape (strip ''0O34567890abcdefABCDEF1234567890abcdefABCD''))
   \<and> handle_token_address example_world example_user_data
        ''0O34567890abcdefABCDEF1234567890abcdefABCD''
      = (example_user_data, [Replied (Plain invalid_address_prompt)], None)
   \<and> ethereum_shape (strip '' 0x1234567890abcdefABCDEF1234567890abcdefAB  '')
   \<and> token_address (fst (handle_token_address example_world example_user_data
        '' 0x1234567890abcdefABCDEF1234567890abcdefAB  ''))
      = Some ''0x1234567890abcdefABCDEF1234567890abcdefAB''"
proof -
  let ?bad = "''0O34567890abcdefABCDEF1234567890abcdefABCD''"
  let ?good = "'' 0x1234567890abcdefABCDEF1234567890abcdefAB  ''"
  have sb: "strip ?bad = ?bad"
    by (simp add: strip_def py_isspace_def)
  have sg: "strip ?good = ''0x1234567890abcdefABCDEF1234567890abcdefAB''"
    by (simp add: strip_def py_isspace_def)
  have bad: "\<not> (ethereum_shape (strip ?bad) \<or> solana_shape (strip ?bad))"
    unfolding sb by (simp add: ethereum_shape_def solana_shape_def base58_char_def)
  have good: "ethereum_shape (strip ?good)"
    unfolding sg by (simp add: ethereum_shape_def hex_char_def)
  from invalid_address_not_processed [of ?bad example_world example_user_data] bad
  have r: "handle_token_address example_world example_user_data ?bad
             = (example_user_data, [Replied (Plain invalid_address_prompt)], None)"
    by blast
  from invalid_address_not_processed [of ?good example_world example_user_data] good
  have a: "token_address (fst (handle_token_address example_world example_user_data ?good))
             = Some (strip ?good)"
    by blast
  from bad r good a show ?thesis
    unfolding sg by blast
qed

text \<open>
  An accepted address does start the pipeline, under either menu option; and the whole trace
  of the rug pull branch when no service answers.
\<close>

lemma accepted_address_runs_pipeline:
  assumes "valid_address_format (strip text)"
    and "selected_option ud = Some ''analyze_token'' \<or> selected_option ud = Some ''rug_pull_scan''"
  shows "Invoked (MarketDataFetch (strip text)) \<in> set (fst (snd (handle_token_address w ud text)))"
  using assms
  by (auto simp: handle_token_address_def Let_def analyze_token_branch_def
      rug_pull_scan_branch_def split: sum.splits)

lemma example_scan_trace:
  "snd (handle_token_address example_world example_user_data
          ''0x1234567890abcdefABCDEF1234567890abcdefAB'')
   = ([Replied (Plain ''Checking Rug Pull Risk for token address: 0x1234567890abcdefABCDEF1234567890abcdefAB''),
       Invoked (MarketDataFetch ''0x1234567890abcdefABCDEF1234567890abcdefAB''),
       Invoked PairSelection, Invoked Classification,
       Invoked (MentionLookup ''0x1234567890abcdefABCDEF1234567890abcdefAB''),
       Replied (RugPullReport ''0x1234567890abcdefABCDEF1234567890abcdefAB''
                  \<lparr> tier = HighRisk, liquidity_level = ''Low'', market_cap_level = ''Low'',
                    price_change_level = ''Negative'', fdv_vs_market_cap = ''Balanced'' \<rparr>
                  [(''DEX'', JStr ''N/A''), (''Price'', JStr ''Not Available''),
                   (''Liquidity'', JStr ''Not Available''), (''Market Cap'', JStr ''Not Available'')]
                  \<lparr> twitter = 0, reddit = 0 \<rparr>)], None)"
proof -
  let ?a = "''0x1234567890abcdefABCDEF1234567890abcdefAB''"
  have s: "strip ?a = ?a" by (simp add: strip_def py_isspace_def)
  have "ethereum_shape ?a" by (simp add: ethereum_shape_def hex_char_def)
  then have v: "valid_address_format ?a"
    by (simp add: valid_address_format_def ethereum_shape_matches)
  have sel: "get_preferred_dex (fetch_dexscreener_data example_world ?a) = Inr (JObj [])"
    by (simp add: fetch_dexscreener_data_def example_world_def get_preferred_dex_def truthy_def)
  have risk: "analyze_rug_pull_risk (JObj []) =
      Inr \<lparr> tier = HighRisk, liquidity_level = ''Low'', market_cap_level = ''Low'',
            price_change_level = ''Negative'', fdv_vs_market_cap = ''Balanced'' \<rparr>"
    by (simp add: analyze_defs)
  have det: "scan_details (JObj []) =
      Inr [(''DEX'', JStr ''N/A''), (''Price'', JStr ''Not Available''),
           (''Liquidity'', JStr ''Not Available''), (''Market Cap'', JStr ''Not Available'')]"
    by (simp add: scan_details_def dict_get_def dict_get2_def)
  have men: "fetch_social_media_mentions (twitter_search example_world ?a)
               (reddit_search example_world ?a) = Inr \<lparr> twitter = 0, reddit = 0 \<rparr>"
    by (simp add: fetch_social_media_mentions_def example_world_def twitter_block_def)
  show ?thesis
    unfolding handle_token_address_def s
    by (simp add: v example_user_data_def rug_pull_scan_branch_def sel risk det men Let_def)
qed

end
